theory Spec2Isabelle
  imports Complex_Main "HOL-Library.Sublist"
begin

section \<open>Values handled by the referral agent\<close>

text \<open>
  The agent (\<^verbatim>\<open>backend/agent.py\<close>) works on whatever \<^verbatim>\<open>json.loads\<close> returns:
  \<^verbatim>\<open>None\<close>, booleans, integers, floats, strings, lists and dictionaries with string
  keys. Python's \<^verbatim>\<open>None\<close> is the JSON \<^verbatim>\<open>null\<close>, so one constructor stands for both.
  A dictionary is an association list read with \<open>map_of\<close>. A float is a rational
  number or one of the three non-finite values that \<^verbatim>\<open>json.loads\<close> accepts. A string is
  a list of characters; the code only compares strings, joins them and looks for the
  separator \<^verbatim>\<open>.\<close> in the fixed field names.
\<close>

datatype pyfloat = Finite rat | PosInf | NegInf | NaN

datatype json =
    JNull
  | JBool bool
  | JInt int
  | JFloat pyfloat
  | JStr string
  | JArr "json list"
  | JObj "(string \<times> json) list"

text \<open>
  The exceptions that the code raises, catches or lets through. \<^verbatim>\<open>json.loads\<close> raises
  \<^verbatim>\<open>JSONDecodeError\<close> on a text that is not JSON, and \<^verbatim>\<open>RecursionError\<close> or a plain
  \<^verbatim>\<open>ValueError\<close> on JSON that it refuses to build (nesting that is too deep, an integer
  with too many digits); \<^verbatim>\<open>APIError\<close> stands for what the OpenAI client raises.
\<close>

datatype exn =
    JSONDecodeError
  | ValueError
  | RecursionError
  | KeyError
  | TypeError
  | AttributeError
  | APIError

subsection \<open>The Python operations the code applies to these values\<close>

text \<open>Truth value of an object, as \<^verbatim>\<open>not x\<close>, \<^verbatim>\<open>if x:\<close> and \<^verbatim>\<open>any\<close> test it.\<close>

fun truthy :: "json \<Rightarrow> bool" where
  "truthy JNull = False"
| "truthy (JBool b) = b"
| "truthy (JInt i) = (i \<noteq> 0)"
| "truthy (JFloat f) = (f \<noteq> Finite 0)"
| "truthy (JStr s) = (s \<noteq> [])"
| "truthy (JArr xs) = (xs \<noteq> [])"
| "truthy (JObj kvs) = (kvs \<noteq> [])"

text \<open>\<^verbatim>\<open>isinstance(x, dict)\<close>.\<close>

fun is_dict :: "json \<Rightarrow> bool" where
  "is_dict (JObj kvs) = True"
| "is_dict v = False"

text \<open>\<^verbatim>\<open>x.get(k, d)\<close>: the value under the key, or the default; only a dictionary has
  the method.\<close>

definition dict_get :: "(string \<times> json) list \<Rightarrow> string \<Rightarrow> json \<Rightarrow> json" where
  "dict_get kvs k d = (case map_of kvs k of Some v \<Rightarrow> v | None \<Rightarrow> d)"

fun py_get :: "json \<Rightarrow> string \<Rightarrow> json \<Rightarrow> exn + json" where
  "py_get (JObj kvs) k d = Inr (dict_get kvs k d)"
| "py_get v k d = Inl AttributeError"

text \<open>\<^verbatim>\<open>s in t\<close> on two strings: \<open>s\<close> occurs in \<open>t\<close> as a contiguous block.\<close>

fun is_substring :: "string \<Rightarrow> string \<Rightarrow> bool" where
  "is_substring s [] = (s = [])"
| "is_substring s (c # t) = (prefix s (c # t) \<or> is_substring s t)"

text \<open>
  \<^verbatim>\<open>k in x\<close> for a string \<open>k\<close>: key membership in a dictionary, element membership in
  a list, substring test in a string; every other value is not iterable.
\<close>

fun py_contains :: "string \<Rightarrow> json \<Rightarrow> exn + bool" where
  "py_contains k (JObj kvs) = Inr (map_of kvs k \<noteq> None)"
| "py_contains k (JArr xs) = Inr (JStr k \<in> set xs)"
| "py_contains k (JStr s) = Inr (is_substring k s)"
| "py_contains k v = Inl TypeError"

text \<open>\<^verbatim>\<open>x[k]\<close> for a string \<open>k\<close>: a missing key raises, and nothing but a dictionary
  takes a string subscript.\<close>

fun py_index :: "json \<Rightarrow> string \<Rightarrow> exn + json" where
  "py_index (JObj kvs) k = (case map_of kvs k of Some v \<Rightarrow> Inr v | None \<Rightarrow> Inl KeyError)"
| "py_index v k = Inl TypeError"

text \<open>\<^verbatim>\<open>s.split(c)\<close> for a one-character separator.\<close>

fun split_str :: "char \<Rightarrow> string \<Rightarrow> string list" where
  "split_str c [] = [[]]"
| "split_str c (x # xs) =
     (if x = c then [] # split_str c xs
      else (case split_str c xs of [] \<Rightarrow> [[x]] | p # ps \<Rightarrow> (x # p) # ps))"

section \<open>Validation: \<^verbatim>\<open>check_required_fields\<close>\<close>

definition required_fields :: "string list" where
  "required_fields =
     [''referring_provider.name'',
      ''referring_provider.contact'',
      ''receiving_provider.name'',
      ''receiving_provider.contact'',
      ''patient.name'',
      ''patient.date_of_birth'',
      ''reason_for_referral'',
      ''requested_action'']"

definition all_fields_sentinel :: string where
  "all_fields_sentinel = ''All fields - invalid JSON response''"

definition contact_annotation :: string where
  "contact_annotation = '' (phone, email, or address)''"

text \<open>
  The inner loop over the parts of a dotted field: \<open>None\<close> is \<^verbatim>\<open>field_missing = True\<close>,
  \<open>Some current\<close> the value the loop ends on.
\<close>

fun traverse :: "string list \<Rightarrow> json \<Rightarrow> json option" where
  "traverse [] current = Some current"
| "traverse (part # parts) current =
     (case current of
        JObj kvs \<Rightarrow>
          (case map_of kvs part of
             None \<Rightarrow> None
           | Some v \<Rightarrow> traverse parts v)
      | _ \<Rightarrow> None)"

text \<open>
  The body of the loop over \<^verbatim>\<open>required_fields\<close>, for one field: the entries it appends
  to \<^verbatim>\<open>missing_fields\<close>, or the exception it raises.
\<close>

definition check_field :: "json \<Rightarrow> string \<Rightarrow> exn + string list" where
  "check_field data field =
     (if CHR ''.'' \<in> set field then
        (case traverse (split_str CHR ''.'' field) data of
           None \<Rightarrow> Inr [field]
         | Some current \<Rightarrow>
             if \<not> truthy current \<or> current = JStr [] then Inr [field]
             else if suffix ''.contact'' field then
               (case py_get current ''phone'' JNull of
                  Inl e \<Rightarrow> Inl e
                | Inr phone \<Rightarrow>
                   (case py_get current ''email'' JNull of
                      Inl e \<Rightarrow> Inl e
                    | Inr email \<Rightarrow>
                       (case py_get current ''address'' JNull of
                          Inl e \<Rightarrow> Inl e
                        | Inr address \<Rightarrow>
                            if \<not> list_ex truthy [phone, email, address]
                            then Inr [field @ contact_annotation]
                            else Inr [])))
             else Inr [])
      else
        (case py_contains field data of
           Inl e \<Rightarrow> Inl e
         | Inr False \<Rightarrow> Inr [field]
         | Inr True \<Rightarrow>
            (case py_index data field of
               Inl e \<Rightarrow> Inl e
             | Inr v \<Rightarrow> if \<not> truthy v \<or> v = JStr [] then Inr [field] else Inr [])))"

text \<open>The loop over the fields, with \<^verbatim>\<open>missing_fields\<close> as accumulator.\<close>

fun check_loop :: "json \<Rightarrow> string list \<Rightarrow> string list \<Rightarrow> exn + string list" where
  "check_loop data [] missing_fields = Inr missing_fields"
| "check_loop data (field # fields) missing_fields =
     (case check_field data field of
        Inl e \<Rightarrow> Inl e
      | Inr new \<Rightarrow> check_loop data fields (missing_fields @ new))"

definition check_required_fields :: "json \<Rightarrow> exn + bool \<times> string list" where
  "check_required_fields data =
     (if \<not> truthy data then Inr (False, [all_fields_sentinel])
      else
        (case check_loop data required_fields [] of
           Inl e \<Rightarrow> Inl e
         | Inr missing_fields \<Rightarrow> Inr (length missing_fields = 0, missing_fields)))"

text \<open>
  The two conditions that the claims about validation speak of. A required path is
  unsatisfied when walking its segments through nested records fails (a segment is
  absent, or the value it is looked up in is not a record) or ends on an empty value.
\<close>

definition path_unsatisfied :: "json \<Rightarrow> string \<Rightarrow> bool" where
  "path_unsatisfied data field =
     (case traverse (split_str CHR ''.'' field) data of
        None \<Rightarrow> True
      | Some v \<Rightarrow> \<not> truthy v)"

text \<open>Every required \<^verbatim>\<open>.contact\<close> path that ends on a non-empty value ends on a record.\<close>

definition contact_values_are_records :: "json \<Rightarrow> bool" where
  "contact_values_are_records data =
     (\<forall>field \<in> set required_fields. suffix ''.contact'' field \<longrightarrow>
        (case traverse (split_str CHR ''.'' field) data of
           None \<Rightarrow> True
         | Some v \<Rightarrow> truthy v \<longrightarrow> is_dict v))"

section \<open>The collaborators and the state of the worker\<close>

text \<open>
  What the agent sends to the language model: the extraction prompt with the raw text,
  or the email prompt, which embeds the two provider names and the missing fields. The
  rendered prompt text is not modelled, only the values that go into it.
\<close>

datatype messages =
    ExtractionMessages json
  | EmailDraftMessages json json "string list"

text \<open>
  Library and service functions that the repository calls and does not define are
  parameters: \<^verbatim>\<open>json.loads\<close> on a text (the value, or the exception it raises), the
  reply of the chat completion (the message content, which may be \<^verbatim>\<open>None\<close>, or the
  exception the client raises), \<^verbatim>\<open>isoformat\<close> of a clock reading, and \<^verbatim>\<open>str\<close> of a value
  that is not a string.
\<close>

record env =
  json_loads :: "string \<Rightarrow> exn + json"
  llm :: "messages \<Rightarrow> exn + string option"
  isoformat :: "nat \<Rightarrow> string"
  py_repr :: "json \<Rightarrow> string"

text \<open>
  What the worker writes to its log, as far as the claims need it: a call of the chat
  completion, the entry into \<^verbatim>\<open>draft_request_email\<close>, a completed \<^verbatim>\<open>mock_send_email\<close> or
  \<^verbatim>\<open>mock_emr_sync\<close>, and an exception logged by a handler of \<^verbatim>\<open>main\<close>.
\<close>

datatype event =
    ChatCalled messages
  | Drafting "string list"
  | EmailSent json json
  | EmrSynced json
  | ErrorLogged exn

text \<open>
  The Redis server and the log. The queue is the list \<^verbatim>\<open>document_processing_queue\<close>, its
  head the left end. A key of the store holds a value and its expiry time, the time of
  the write plus the time to live; Redis serves the key up to and including that time
  and drops it once the clock is past it. The value is kept as the JSON value whose
  \<^verbatim>\<open>json.dumps\<close> text Redis holds, so that reading it back with \<^verbatim>\<open>json.loads\<close> is the
  identity. The clock counts seconds and does not advance while one job is processed.
  Redis commands are taken to succeed.
\<close>

record world =
  queue :: "string list"
  store :: "string \<Rightarrow> (json \<times> nat) option"
  clock :: nat
  trace :: "event list"

definition redis_setex :: "string \<Rightarrow> nat \<Rightarrow> json \<Rightarrow> world \<Rightarrow> world" where
  "redis_setex key ttl v w = w\<lparr>store := (store w)(key \<mapsto> (v, clock w + ttl))\<rparr>"

definition redis_get :: "world \<Rightarrow> string \<Rightarrow> json option" where
  "redis_get w key =
     (case store w key of
        None \<Rightarrow> None
      | Some (v, expires) \<Rightarrow> if clock w \<le> expires then Some v else None)"

definition log_event :: "event \<Rightarrow> world \<Rightarrow> world" where
  "log_event ev w = w\<lparr>trace := trace w @ [ev]\<rparr>"

text \<open>\<^verbatim>\<open>str(x)\<close> inside an f-string.\<close>

definition py_str :: "env \<Rightarrow> json \<Rightarrow> string" where
  "py_str env v = (case v of JStr s \<Rightarrow> s | _ \<Rightarrow> py_repr env v)"

section \<open>The agent: \<^verbatim>\<open>backend/agent.py\<close>\<close>


definition chat_with_gpt4 :: "env \<Rightarrow> messages \<Rightarrow> world \<Rightarrow> (exn + string option) \<times> world" where
  "chat_with_gpt4 env msgs w = (llm env msgs, log_event (ChatCalled msgs) w)"

definition llm_assistend_extraction :: "env \<Rightarrow> json \<Rightarrow> world \<Rightarrow> (exn + json) \<times> world" where
  "llm_assistend_extraction env raw_ocr_text w =
     (case chat_with_gpt4 env (ExtractionMessages raw_ocr_text) w of
        (Inl e, w1) \<Rightarrow> (Inl e, w1)
      | (Inr response, w1) \<Rightarrow>
          (case response of
             None \<Rightarrow> (Inr JNull, w1)
           | Some text \<Rightarrow>
               (case json_loads env text of
                  Inl e \<Rightarrow> if e = JSONDecodeError then (Inr JNull, w1) else (Inl e, w1)
                | Inr data \<Rightarrow> (Inr data, w1))))"

definition draft_request_email ::
  "env \<Rightarrow> string list \<Rightarrow> json \<Rightarrow> json \<Rightarrow> json \<Rightarrow> world \<Rightarrow> (exn + json) \<times> world" where
  "draft_request_email env missing_fields referring_provider receiving_provider referral_id w =
     (let w0 = log_event (Drafting missing_fields) w in
      case py_get referring_provider ''name'' (JStr ''Unknown'') of
        Inl e \<Rightarrow> (Inl e, w0)
      | Inr referring_name \<Rightarrow>
         (case py_get receiving_provider ''name'' (JStr ''Unknown'') of
            Inl e \<Rightarrow> (Inl e, w0)
          | Inr receiving_name \<Rightarrow>
             (case chat_with_gpt4 env
                     (EmailDraftMessages referring_name receiving_name missing_fields) w0 of
                (Inl e, w1) \<Rightarrow> (Inl e, w1)
              | (Inr response, w1) \<Rightarrow>
                  (case response of
                     None \<Rightarrow> (Inr JNull, w1)
                   | Some text \<Rightarrow>
                       (case json_loads env text of
                          Inl e \<Rightarrow> if e = JSONDecodeError then (Inr JNull, w1) else (Inl e, w1)
                        | Inr draft \<Rightarrow> (Inr draft, w1))))))"

definition mock_send_email :: "env \<Rightarrow> json \<Rightarrow> json \<Rightarrow> world \<Rightarrow> (exn + json) \<times> world" where
  "mock_send_email env email_data contact_info w =
     (case py_get email_data ''subject'' (JStr ''Missing Referral Information'') of
        Inl e \<Rightarrow> (Inl e, w)
      | Inr subject \<Rightarrow>
         (case py_get email_data ''body'' (JStr ''No body content'') of
            Inl e \<Rightarrow> (Inl e, w)
          | Inr body \<Rightarrow>
              (Inr (JObj [(''status'', JStr ''sent''),
                          (''timestamp'', JStr (isoformat env (clock w))),
                          (''recipient'', contact_info)]),
               log_event (EmailSent email_data contact_info) w)))"

text \<open>The name that \<^verbatim>\<open>mock_emr_sync\<close> logs for a sub-record:
  \<^verbatim>\<open>referral_data.get(key, {}).get('name', 'Unknown')\<close>.\<close>

definition logged_name :: "json \<Rightarrow> string \<Rightarrow> exn + json" where
  "logged_name referral_data key =
     (case py_get referral_data key (JObj []) of
        Inl e \<Rightarrow> Inl e
      | Inr sub \<Rightarrow> py_get sub ''name'' (JStr ''Unknown''))"

definition mock_emr_sync :: "env \<Rightarrow> json \<Rightarrow> world \<Rightarrow> (exn + json) \<times> world" where
  "mock_emr_sync env referral_data w =
     (case py_get referral_data ''referral_id'' (JStr ''Unknown'') of
        Inl e \<Rightarrow> (Inl e, w)
      | Inr logged_id \<Rightarrow>
     (case logged_name referral_data ''patient'' of
        Inl e \<Rightarrow> (Inl e, w)
      | Inr patient_name \<Rightarrow>
     (case logged_name referral_data ''referring_provider'' of
        Inl e \<Rightarrow> (Inl e, w)
      | Inr referring_name \<Rightarrow>
     (case logged_name referral_data ''receiving_provider'' of
        Inl e \<Rightarrow> (Inl e, w)
      | Inr receiving_name \<Rightarrow>
     (case py_get referral_data ''referral_id'' JNull of
        Inl e \<Rightarrow> (Inl e, w)
      | Inr referral_id \<Rightarrow>
          (Inr (JObj [(''status'', JStr ''synced''),
                      (''timestamp'', JStr (isoformat env (clock w))),
                      (''referral_id'', referral_id)]),
           log_event (EmrSynced referral_data) w))))))"

text \<open>The dictionary that \<^verbatim>\<open>update_redis_status\<close> stores.\<close>

definition status_data :: "env \<Rightarrow> world \<Rightarrow> string \<Rightarrow> json \<Rightarrow> json \<Rightarrow> json" where
  "status_data env w status additional_info structured_data =
     JObj [(''status'', JStr status),
           (''timestamp'', JStr (isoformat env (clock w))),
           (''additional_info'', additional_info),
           (''structured_data'', structured_data)]"

definition update_redis_status :: "env \<Rightarrow> json \<Rightarrow> string \<Rightarrow> json \<Rightarrow> json \<Rightarrow> world \<Rightarrow> world" where
  "update_redis_status env doc_id status additional_info structured_data w =
     redis_setex (''document:'' @ py_str env doc_id) 3600
       (status_data env w status additional_info structured_data) w"

definition no_contact :: string where
  "no_contact = ''No contact information available''"

definition get_contact_info :: "json \<Rightarrow> exn + json" where
  "get_contact_info provider_data =
     (case py_get provider_data ''contact'' (JObj []) of
        Inl e \<Rightarrow> Inl e
      | Inr contact \<Rightarrow>
         (case py_get contact ''email'' JNull of
            Inl e \<Rightarrow> Inl e
          | Inr email \<Rightarrow>
             if truthy email then py_index contact ''email''
             else
               (case py_get contact ''phone'' JNull of
                  Inl e \<Rightarrow> Inl e
                | Inr phone \<Rightarrow>
                   if truthy phone then py_index contact ''phone''
                   else
                     (case py_get contact ''address'' JNull of
                        Inl e \<Rightarrow> Inl e
                      | Inr address \<Rightarrow>
                         if truthy address then py_index contact ''address''
                         else Inr (JStr no_contact)))))"

text \<open>Lines 295 to 297 of \<^verbatim>\<open>main\<close>: whom to contact, the referring provider first.\<close>

definition resolve_contact_info :: "json \<Rightarrow> json \<Rightarrow> exn + json" where
  "resolve_contact_info referring_provider receiving_provider =
     (case get_contact_info referring_provider of
        Inl e \<Rightarrow> Inl e
      | Inr contact_info \<Rightarrow>
          if contact_info = JStr no_contact then get_contact_info receiving_provider
          else Inr contact_info)"

text \<open>Lines 271 to 311 of \<^verbatim>\<open>main\<close>: the branch on \<^verbatim>\<open>is_complete\<close>.\<close>

definition route_document ::
  "env \<Rightarrow> json \<Rightarrow> json \<Rightarrow> bool \<Rightarrow> string list \<Rightarrow> world \<Rightarrow> (exn + unit) \<times> world" where
  "route_document env doc_id structured_data is_complete missing_fields w =
     (if is_complete then
        (case mock_emr_sync env structured_data w of
           (Inl e, w1) \<Rightarrow> (Inl e, w1)
         | (Inr emr_result, w1) \<Rightarrow>
             (Inr (), update_redis_status env doc_id ''emr_synced'' emr_result structured_data w1))
      else
        (case py_get structured_data ''referring_provider'' (JObj []) of
           Inl e \<Rightarrow> (Inl e, w)
         | Inr referring_provider \<Rightarrow>
        (case py_get structured_data ''receiving_provider'' (JObj []) of
           Inl e \<Rightarrow> (Inl e, w)
         | Inr receiving_provider \<Rightarrow>
        (case py_get structured_data ''referral_id'' doc_id of
           Inl e \<Rightarrow> (Inl e, w)
         | Inr referral_id \<Rightarrow>
        (case draft_request_email env missing_fields referring_provider receiving_provider
                referral_id w of
           (Inl e, w1) \<Rightarrow> (Inl e, w1)
         | (Inr email_draft, w1) \<Rightarrow>
             if truthy email_draft then
               (case resolve_contact_info referring_provider receiving_provider of
                  Inl e \<Rightarrow> (Inl e, w1)
                | Inr contact_info \<Rightarrow>
                   (case mock_send_email env email_draft contact_info w1 of
                      (Inl e, w2) \<Rightarrow> (Inl e, w2)
                    | (Inr email_result, w2) \<Rightarrow>
                        (Inr (),
                         update_redis_status env doc_id ''missing_fields_email_sent''
                           (JObj [(''missing_fields'', JArr (map JStr missing_fields)),
                                  (''email_result'', email_result),
                                  (''contact_info'', contact_info)])
                           structured_data w2)))
             else
               (Inr (),
                update_redis_status env doc_id ''email_draft_failed''
                  (JObj [(''missing_fields'', JArr (map JStr missing_fields))])
                  structured_data w1))))))"

text \<open>Lines 250 to 315 of \<^verbatim>\<open>main\<close>: the body of the \<^verbatim>\<open>try\<close> block for one job.\<close>

definition try_body :: "env \<Rightarrow> string \<Rightarrow> world \<Rightarrow> (exn + unit) \<times> world" where
  "try_body env document_data w =
     (case json_loads env document_data of
        Inl e \<Rightarrow> (Inl e, w)
      | Inr job_data \<Rightarrow>
     (case py_get job_data ''document_id'' (JStr ''unknown'') of
        Inl e \<Rightarrow> (Inl e, w)
      | Inr doc_id \<Rightarrow>
     (case py_get job_data ''extracted_text'' (JStr []) of
        Inl e \<Rightarrow> (Inl e, w)
      | Inr raw_ocr_text \<Rightarrow>
     (case llm_assistend_extraction env raw_ocr_text w of
        (Inl e, w1) \<Rightarrow> (Inl e, w1)
      | (Inr structured_data, w1) \<Rightarrow>
          if structured_data = JNull then
            (Inr (),
             update_redis_status env doc_id ''extraction_failed''
               (JStr ''LLM extraction failed'') JNull w1)
          else
            (case check_required_fields structured_data of
               Inl e \<Rightarrow> (Inl e, w1)
             | Inr (is_complete, missing_fields) \<Rightarrow>
                 route_document env doc_id structured_data is_complete missing_fields w1)))))"

text \<open>
  The \<^verbatim>\<open>try\<close> statement with its two handlers: how the processing of one job ends.
  \<^verbatim>\<open>JSONDecodeError\<close>, \<^verbatim>\<open>KeyError\<close> and \<^verbatim>\<open>TypeError\<close> are logged and dropped; any other
  exception is logged and raised again, out of \<^verbatim>\<open>main\<close>.
\<close>

datatype outcome = Completed | Swallowed exn | Propagated exn

definition process_document :: "env \<Rightarrow> string \<Rightarrow> world \<Rightarrow> outcome \<times> world" where
  "process_document env document_data w =
     (case try_body env document_data w of
        (Inr u, w1) \<Rightarrow> (Completed, w1)
      | (Inl e, w1) \<Rightarrow>
          if e = JSONDecodeError \<or> e = KeyError \<or> e = TypeError
          then (Swallowed e, log_event (ErrorLogged e) w1)
          else (Propagated e, log_event (ErrorLogged e) w1))"


section \<open>The status endpoint: \<^verbatim>\<open>backend/main.py\<close>\<close>

datatype http_exception = HTTPException nat string

definition get_document_status :: "world \<Rightarrow> string \<Rightarrow> http_exception + json" where
  "get_document_status w document_id =
     (case redis_get w (''document:'' @ document_id) of
        None \<Rightarrow> Inl (HTTPException 500 ''Corrupt document data in Redis'')
      | Some data \<Rightarrow>
         (case py_get data ''status'' JNull of
            Inl e \<Rightarrow> Inl (HTTPException 500 ''Failed to retrieve document status'')
          | Inr status \<Rightarrow>
         (case py_get data ''timestamp'' JNull of
            Inl e \<Rightarrow> Inl (HTTPException 500 ''Failed to retrieve document status'')
          | Inr timestamp \<Rightarrow>
         (case py_get data ''additional_info'' JNull of
            Inl e \<Rightarrow> Inl (HTTPException 500 ''Failed to retrieve document status'')
          | Inr additional_info \<Rightarrow>
         (case py_get data ''structured_data'' JNull of
            Inl e \<Rightarrow> Inl (HTTPException 500 ''Failed to retrieve document status'')
          | Inr structured_data \<Rightarrow>
              Inr (JObj [(''status'', status),
                         (''timestamp'', timestamp),
                         (''additional_info'', additional_info),
                         (''structured_data'', structured_data)]))))))"

section \<open>Notions that the claims about contact resolution use\<close>

text \<open>
  The contact record of a provider record: the record under \<^verbatim>\<open>contact\<close>, the empty record
  for a provider without that key, and \<open>None\<close> when the provider is not a record or the
  value under \<^verbatim>\<open>contact\<close> is not one.
\<close>

definition contact_record :: "json \<Rightarrow> (string \<times> json) list option" where
  "contact_record provider =
     (case provider of
        JObj kvs \<Rightarrow> (case dict_get kvs ''contact'' (JObj []) of JObj c \<Rightarrow> Some c | _ \<Rightarrow> None)
      | _ \<Rightarrow> None)"

text \<open>The best channel of a contact record under the priority email, phone, address;
  \<open>None\<close> when all three are empty or absent.\<close>

definition best_channel :: "(string \<times> json) list \<Rightarrow> json option" where
  "best_channel contact =
     (if truthy (dict_get contact ''email'' JNull) then Some (dict_get contact ''email'' JNull)
      else if truthy (dict_get contact ''phone'' JNull) then Some (dict_get contact ''phone'' JNull)
      else if truthy (dict_get contact ''address'' JNull)
        then Some (dict_get contact ''address'' JNull)
      else None)"

section \<open>Sample data\<close>

text \<open>
  Concrete referrals, replies and jobs on which the theorems below are instantiated. The
  first referral has every required field; the second has no contact channel for either
  provider.
\<close>

definition complete_fields :: "(string \<times> json) list" where
  "complete_fields =
          [(''referral_id'', JStr ''R-1''),
           (''referring_provider'',
              JObj [(''name'', JStr ''Dr. Adams''),
                    (''contact'', JObj [(''phone'', JStr []),
                                       (''email'', JStr ''adams@clinic.example''),
                                       (''address'', JStr [])])]),
           (''receiving_provider'',
              JObj [(''name'', JStr ''Dr. Brown''),
                    (''contact'', JObj [(''phone'', JStr ''555-0100'')])]),
           (''patient'',
              JObj [(''name'', JStr ''Pat Doe''), (''date_of_birth'', JStr ''1980-02-03'')]),
           (''reason_for_referral'', JStr ''chest pain''),
           (''requested_action'', JStr ''cardiology consult'')]"

definition complete_referral :: json where
  "complete_referral = JObj complete_fields"

definition complete_referral_text :: string where
  \<open>complete_referral_text =
     ''{"referral_id": "R-1", ''
     @ ''"referring_provider": {"name": "Dr. Adams", ''
     @ ''"contact": {"phone": "", "email": "adams@clinic.example", "address": ""}}, ''
     @ ''"receiving_provider": {"name": "Dr. Brown", "contact": {"phone": "555-0100"}}, ''
     @ ''"patient": {"name": "Pat Doe", "date_of_birth": "1980-02-03"}, ''
     @ ''"reason_for_referral": "chest pain", "requested_action": "cardiology consult"}''\<close>

definition unreachable_fields :: "(string \<times> json) list" where
  "unreachable_fields =
          [(''referring_provider'',
              JObj [(''name'', JStr ''Dr. Adams''),
                    (''contact'', JObj [(''phone'', JStr []),
                                       (''email'', JStr []),
                                       (''address'', JStr [])])]),
           (''receiving_provider'', JObj [(''name'', JStr ''Dr. Brown'')]),
           (''patient'',
              JObj [(''name'', JStr ''Pat Doe''), (''date_of_birth'', JStr ''1980-02-03'')]),
           (''reason_for_referral'', JStr ''chest pain''),
           (''requested_action'', JStr ''cardiology consult'')]"

definition unreachable_referral :: json where
  "unreachable_referral = JObj unreachable_fields"

definition unreachable_referral_text :: string where
  \<open>unreachable_referral_text =
     ''{"referring_provider": {"name": "Dr. Adams", ''
     @ ''"contact": {"phone": "", "email": "", "address": ""}}, ''
     @ ''"receiving_provider": {"name": "Dr. Brown"}, ''
     @ ''"patient": {"name": "Pat Doe", "date_of_birth": "1980-02-03"}, ''
     @ ''"reason_for_referral": "chest pain", "requested_action": "cardiology consult"}''\<close>

text \<open>A referral whose patient has no date of birth, and one whose referring provider has
  an empty contact record.\<close>

definition referral_without_dob :: json where
  "referral_without_dob =
     JObj [(''referring_provider'',
              JObj [(''name'', JStr ''Dr. Adams''),
                    (''contact'', JObj [(''email'', JStr ''adams@clinic.example'')])]),
           (''receiving_provider'',
              JObj [(''name'', JStr ''Dr. Brown''),
                    (''contact'', JObj [(''phone'', JStr ''555-0100'')])]),
           (''patient'', JObj [(''name'', JStr ''Pat Doe'')]),
           (''reason_for_referral'', JStr ''chest pain''),
           (''requested_action'', JStr ''cardiology consult'')]"

definition referral_with_contact :: "json \<Rightarrow> json" where
  "referral_with_contact contact =
     JObj [(''referring_provider'', JObj [(''name'', JStr ''Dr. Adams''), (''contact'', contact)]),
           (''receiving_provider'',
              JObj [(''name'', JStr ''Dr. Brown''),
                    (''contact'', JObj [(''phone'', JStr ''555-0100'')])]),
           (''patient'',
              JObj [(''name'', JStr ''Pat Doe''), (''date_of_birth'', JStr ''1980-02-03'')]),
           (''reason_for_referral'', JStr ''chest pain''),
           (''requested_action'', JStr ''cardiology consult'')]"

text \<open>An email draft as the second prompt asks for it.\<close>

definition sample_draft_fields :: "(string \<times> json) list" where
  "sample_draft_fields =
          [(''subject'', JStr ''Missing referral information''),
           (''body'', JStr ''Please send the missing details.''),
           (''recipient'', JStr ''referring provider'')]"

definition sample_draft :: json where
  "sample_draft = JObj sample_draft_fields"

definition sample_draft_text :: string where
  \<open>sample_draft_text =
     ''{"subject": "Missing referral information", ''
     @ ''"body": "Please send the missing details.", "recipient": "referring provider"}''\<close>

text \<open>A queue entry as the upload endpoint writes it, cut down to the two keys that the
  agent reads, and the job it encodes.\<close>

definition job_text :: "string \<Rightarrow> string \<Rightarrow> string" where
  \<open>job_text doc_id raw =
     ''{"document_id": "'' @ doc_id @ ''", "extracted_text": "'' @ raw @ ''"}''\<close>

definition job_fields :: "string \<Rightarrow> string \<Rightarrow> (string \<times> json) list" where
  "job_fields doc_id raw = [(''document_id'', JStr doc_id), (''extracted_text'', JStr raw)]"

text \<open>
  A referral in which the contact of both providers is the empty string, the placeholder
  that the extraction prompt asks for when a field is missing.
\<close>

definition blank_contact_fields :: "(string \<times> json) list" where
  "blank_contact_fields =
          [(''referring_provider'', JObj [(''name'', JStr ''Dr. Adams''), (''contact'', JStr [])]),
           (''receiving_provider'', JObj [(''name'', JStr ''Dr. Brown''), (''contact'', JStr [])]),
           (''patient'',
              JObj [(''name'', JStr ''Pat Doe''), (''date_of_birth'', JStr ''1980-02-03'')]),
           (''reason_for_referral'', JStr ''chest pain''),
           (''requested_action'', JStr ''cardiology consult'')]"

definition blank_contact_referral_text :: string where
  \<open>blank_contact_referral_text =
     ''{"referring_provider": {"name": "Dr. Adams", "contact": ""}, ''
     @ ''"receiving_provider": {"name": "Dr. Brown", "contact": ""}, ''
     @ ''"patient": {"name": "Pat Doe", "date_of_birth": "1980-02-03"}, ''
     @ ''"reason_for_referral": "chest pain", "requested_action": "cardiology consult"}''\<close>

text \<open>A JSON text of arrays nested so deep that \<^verbatim>\<open>json.loads\<close> gives up on it.\<close>

definition deep_array_text :: string where
  "deep_array_text = replicate 100000 (CHR ''['') @ replicate 100000 (CHR '']'')"

text \<open>
  The outcome of \<^verbatim>\<open>json.loads\<close> on the texts that occur below; on these it agrees with
  Python. Two of them do not give a value: the apology is not JSON, and the deep array
  exhausts the recursion limit.
\<close>

definition sample_loads :: "string \<Rightarrow> exn + json" where
  \<open>sample_loads text =
     (if text = job_text ''d1'' ''scan 1'' then Inr (JObj (job_fields ''d1'' ''scan 1''))
      else if text = job_text ''d2'' ''scan 2'' then Inr (JObj (job_fields ''d2'' ''scan 2''))
      else if text = job_text ''d3'' ''scan 3'' then Inr (JObj (job_fields ''d3'' ''scan 3''))
      else if text = job_text ''d4'' ''scan 4'' then Inr (JObj (job_fields ''d4'' ''scan 4''))
      else if text = job_text ''d5'' ''scan 5'' then Inr (JObj (job_fields ''d5'' ''scan 5''))
      else if text = job_text ''d6'' ''scan 6'' then Inr (JObj (job_fields ''d6'' ''scan 6''))
      else if text = job_text ''d7'' ''scan 7'' then Inr (JObj (job_fields ''d7'' ''scan 7''))
      else if text = job_text ''d8'' ''scan 8'' then Inr (JObj (job_fields ''d8'' ''scan 8''))
      else if text = complete_referral_text then Inr complete_referral
      else if text = unreachable_referral_text then Inr unreachable_referral
      else if text = blank_contact_referral_text then Inr (JObj blank_contact_fields)
      else if text = sample_draft_text then Inr sample_draft
      else if text = ''{"answer": "no referral found"}''
        then Inr (JObj [(''answer'', JStr ''no referral found'')])
      else if text = ''[1]'' then Inr (JArr [JInt 1])
      else if text = ''42'' then Inr (JInt 42)
      else if text = ''Sorry, I cannot read this document.'' then Inl JSONDecodeError
      else if text = deep_array_text then Inl RecursionError
      else Inl JSONDecodeError)\<close>

text \<open>
  A language-model stub: the reply depends on the raw text of the scan; every request
  for an email draft gets the sample draft.
\<close>

definition sample_llm :: "messages \<Rightarrow> exn + string option" where
  \<open>sample_llm msgs =
     (case msgs of
        ExtractionMessages raw \<Rightarrow>
          (if raw = JStr ''scan 1'' then Inr (Some complete_referral_text)
           else if raw = JStr ''scan 2'' then Inr (Some unreachable_referral_text)
           else if raw = JStr ''scan 3'' then Inr (Some ''Sorry, I cannot read this document.'')
           else if raw = JStr ''scan 4'' then Inr (Some ''{"answer": "no referral found"}'')
           else if raw = JStr ''scan 5'' then Inr (Some ''[1]'')
           else if raw = JStr ''scan 6'' then Inr (Some ''42'')
           else if raw = JStr ''scan 7'' then Inr (Some deep_array_text)
           else if raw = JStr ''scan 8'' then Inr (Some blank_contact_referral_text)
           else Inl APIError)
      | EmailDraftMessages referring_name receiving_name missing_fields \<Rightarrow>
          Inr (Some sample_draft_text))\<close>

definition sample_env :: env where
  "sample_env =
     \<lparr>json_loads = sample_loads,
      llm = sample_llm,
      isoformat = (\<lambda>t. ''2025-01-01T00:00:00''),
      py_repr = (\<lambda>v. ''?'')\<rparr>"


definition idle_world :: world where
  "idle_world = \<lparr>queue = [], store = (\<lambda>key. None), clock = 0, trace = []\<rparr>"

section \<open>Properties of the validation\<close>

subsection \<open>The loop and its body\<close>

lemma split_str_no_sep: "c \<notin> set s \<Longrightarrow> split_str c s = [s]"
  by (induction s) auto

lemma check_loop_append:
  "check_loop data fs acc = Inr m \<Longrightarrow>
     x \<in> set m \<longleftrightarrow> x \<in> set acc \<or> (\<exists>f\<in>set fs. \<exists>new. check_field data f = Inr new \<and> x \<in> set new)"
proof (induction fs arbitrary: acc)
  case Nil
  then show ?case by simp
next
  case (Cons f fs)
  then show ?case by (auto split: sum.splits)
qed

lemma check_loop_fields_return:
  "check_loop data fs acc = Inr m \<Longrightarrow> f \<in> set fs \<Longrightarrow> \<exists>new. check_field data f = Inr new"
  by (induction fs arbitrary: acc) (auto split: sum.splits)

lemma check_loop_total:
  "(\<And>f. f \<in> set fs \<Longrightarrow> \<exists>new. check_field data f = Inr new) \<Longrightarrow> \<exists>m. check_loop data fs acc = Inr m"
proof (induction fs arbitrary: acc)
  case Nil
  then show ?case by simp
next
  case (Cons f fs)
  then obtain new where "check_field data f = Inr new" by fastforce
  with Cons show ?case by simp
qed

lemma check_loop_raises:
  "check_loop data fs acc = Inl e \<Longrightarrow> \<exists>f\<in>set fs. check_field data f = Inl e"
  by (induction fs arbitrary: acc) (auto split: sum.splits)

lemma split_str_nonempty: "split_str c s \<noteq> []"
  by (induction s) (auto split: list.splits)

lemma traverse_truthy:
  "traverse ps data = Some v \<Longrightarrow> ps \<noteq> [] \<Longrightarrow> truthy data \<and> is_dict data"
  by (cases ps; cases data) (auto split: option.splits)

lemma suffix_contact_dotted: "suffix ''.contact'' field \<Longrightarrow> CHR ''.'' \<in> set field"
  by (auto simp: suffix_def)

lemma check_field_top_dict:
  "CHR ''.'' \<notin> set field \<Longrightarrow>
     check_field (JObj kvs) field = Inr (if path_unsatisfied (JObj kvs) field then [field] else [])"
  by (auto simp: check_field_def path_unsatisfied_def split_str_no_sep split: option.splits)

lemma check_field_top_other:
  "CHR ''.'' \<notin> set field \<Longrightarrow> \<not> is_dict data \<Longrightarrow> check_field data field = Inr new \<Longrightarrow>
     new = [field]"
  by (cases data) (auto simp: check_field_def split: if_splits sum.splits bool.splits)

lemma check_field_plain:
  "CHR ''.'' \<in> set field \<Longrightarrow> \<not> suffix ''.contact'' field \<Longrightarrow>
     check_field data field = Inr (if path_unsatisfied data field then [field] else [])"
  by (auto simp: check_field_def path_unsatisfied_def split: option.splits)

lemma check_field_contact:
  "suffix ''.contact'' field \<Longrightarrow>
     check_field data field =
       (case traverse (split_str CHR ''.'' field) data of
          None \<Rightarrow> Inr [field]
        | Some v \<Rightarrow>
            if \<not> truthy v then Inr [field]
            else (case v of
                    JObj c \<Rightarrow>
                      if \<not> list_ex truthy
                           [dict_get c ''phone'' JNull, dict_get c ''email'' JNull,
                            dict_get c ''address'' JNull]
                      then Inr [field @ contact_annotation] else Inr []
                  | _ \<Rightarrow> Inl AttributeError))"
  using suffix_contact_dotted[of field]
  by (auto simp: check_field_def split: option.splits json.splits)

lemma check_field_unsatisfied:
  assumes "check_field data field = Inr new" and "path_unsatisfied data field"
  shows "field \<in> set new"
proof (cases "CHR ''.'' \<in> set field")
  case True
  with assms show ?thesis
    by (auto simp: check_field_def path_unsatisfied_def split: option.splits)
next
  case False
  show ?thesis
  proof (cases data)
    case (JObj kvs)
    with False assms show ?thesis by (auto simp: check_field_top_dict)
  qed (use False assms check_field_top_other[of field data new] in auto)
qed

lemma check_field_entries:
  "check_field data g = Inr new \<Longrightarrow> set new \<subseteq> {g, g @ contact_annotation}"
  by (auto simp: check_field_def split: if_splits option.splits sum.splits bool.splits)

lemma py_get_error: "py_get x k d = Inl e \<Longrightarrow> e = AttributeError"
  by (cases x) auto

lemma check_field_dict_error:
  "check_field (JObj kvs) g = Inl e \<Longrightarrow> e = AttributeError"
  by (auto simp: check_field_def split: if_splits option.splits sum.splits bool.splits
      dest: py_get_error)

lemma required_no_paren: "g \<in> set required_fields \<Longrightarrow> CHR '')'' \<notin> set g"
  by (auto simp: required_fields_def)

lemma annotated_not_required: "g \<in> set required_fields \<Longrightarrow> g \<noteq> f @ contact_annotation"
  using required_no_paren[of g] by (auto simp: contact_annotation_def)

subsection \<open>An absent input\<close>

text \<open>
  Claim C8. \<^verbatim>\<open>check_required_fields(None)\<close> returns \<^verbatim>\<open>False\<close> together with a list of
  exactly one entry, the sentinel \<^verbatim>\<open>"All fields - invalid JSON response"\<close>, which is
  none of the required paths and none of their annotated forms.
\<close>

theorem check_required_fields_null:
  "check_required_fields JNull = Inr (False, [''All fields - invalid JSON response''])
   \<and> length [''All fields - invalid JSON response''] = 1
   \<and> ''All fields - invalid JSON response'' \<notin> set required_fields
   \<and> ''All fields - invalid JSON response''
        \<notin> set (map (\<lambda>f. f @ contact_annotation) required_fields)"
  by (simp add: check_required_fields_def all_fields_sentinel_def required_fields_def
      contact_annotation_def)

theorem check_required_fields_null_witness:
  "fst (projr (check_required_fields JNull)) = False
   \<and> snd (projr (check_required_fields JNull)) = [all_fields_sentinel]"
  using check_required_fields_null by (simp add: all_fields_sentinel_def)

subsection \<open>Unsatisfied paths are reported\<close>

text \<open>
  Claim C2, as the code has it. Whenever \<^verbatim>\<open>check_required_fields\<close> returns a pair, the
  flag is true exactly when the list is empty; and for a non-empty input, every one of
  the eight required paths that is unsatisfied (a segment is absent, a segment is looked
  up in something that is not a record, or the walk ends on an empty value) is an entry
  of the returned list. The input has to be non-empty: an empty one, the empty record
  included, is answered with the sentinel alone.
\<close>

theorem check_required_fields_reports_unsatisfied:
  assumes "check_required_fields data = Inr (is_complete, missing)"
  shows "(is_complete \<longleftrightarrow> missing = []) \<and>
         (truthy data \<longrightarrow>
            (\<forall>field \<in> set required_fields. path_unsatisfied data field \<longrightarrow> field \<in> set missing))"
proof (cases "truthy data")
  case False
  with assms show ?thesis by (auto simp: check_required_fields_def)
next
  case True
  with assms have loop: "check_loop data required_fields [] = Inr missing"
    and flag: "is_complete \<longleftrightarrow> missing = []"
    by (auto simp: check_required_fields_def split: sum.splits)
  have "field \<in> set missing"
    if "field \<in> set required_fields" and "path_unsatisfied data field" for field
  proof -
    from check_loop_fields_return[OF loop that(1)]
    obtain new where new: "check_field data field = Inr new" by blast
    from check_field_unsatisfied[OF new that(2)] have "field \<in> set new" .
    with check_loop_append[OF loop, of field] that(1) new show ?thesis by blast
  qed
  with flag show ?thesis by blast
qed

theorem check_required_fields_reports_unsatisfied_witness:
  "check_required_fields referral_without_dob = Inr (False, [''patient.date_of_birth''])
   \<and> truthy referral_without_dob
   \<and> ''patient.date_of_birth'' \<in> set required_fields
   \<and> path_unsatisfied referral_without_dob ''patient.date_of_birth''
   \<and> ''patient.date_of_birth'' \<in> set [''patient.date_of_birth'']
   \<and> (False \<longleftrightarrow> [''patient.date_of_birth''] = [])"
proof -
  have ret: "check_required_fields referral_without_dob = Inr (False, [''patient.date_of_birth''])"
    by code_simp
  have nonempty: "truthy referral_without_dob"
    by (simp add: referral_without_dob_def)
  have req: "''patient.date_of_birth'' \<in> set required_fields"
    by (simp add: required_fields_def)
  have unsat: "path_unsatisfied referral_without_dob ''patient.date_of_birth''"
    by (simp add: path_unsatisfied_def referral_without_dob_def)
  from check_required_fields_reports_unsatisfied[OF ret] nonempty req unsat
  have "''patient.date_of_birth'' \<in> set [''patient.date_of_birth'']
        \<and> (False \<longleftrightarrow> [''patient.date_of_birth''] = [])"
    by blast
  with ret nonempty req unsat show ?thesis by blast
qed

text \<open>
  The claim as it is written fails on the empty record: each required path has an
  absent segment, and none of them is in the list that is returned.
\<close>

theorem check_required_fields_empty_record:
  "check_required_fields (JObj []) = Inr (False, [''All fields - invalid JSON response''])
   \<and> ''patient.name'' \<in> set required_fields
   \<and> path_unsatisfied (JObj []) ''patient.name''
   \<and> ''patient.name'' \<notin> set [''All fields - invalid JSON response'']"
  by (simp add: check_required_fields_def all_fields_sentinel_def required_fields_def
      path_unsatisfied_def)

subsection \<open>The contact rule\<close>

text \<open>
  Claim C3, as the code has it. Let a required path ending in \<^verbatim>\<open>.contact\<close> lead to a
  record, and let \<^verbatim>\<open>check_required_fields\<close> return. If the record is not empty, the path
  with the annotation \<^verbatim>\<open>" (phone, email, or address)"\<close> is in the list exactly when
  phone, email and address are all empty, and the bare path is not in the list. If the
  record is the empty record, the bare path is in the list and the annotated one is not.
\<close>

theorem check_required_fields_contact_record:
  assumes ret: "check_required_fields data = Inr (is_complete, missing)"
    and req: "field \<in> set required_fields"
    and suf: "suffix ''.contact'' field"
    and res: "traverse (split_str CHR ''.'' field) data = Some (JObj contact)"
  shows "(contact \<noteq> [] \<longrightarrow>
            field \<notin> set missing \<and>
            (field @ '' (phone, email, or address)'' \<in> set missing \<longleftrightarrow>
               \<not> truthy (dict_get contact ''phone'' JNull) \<and>
               \<not> truthy (dict_get contact ''email'' JNull) \<and>
               \<not> truthy (dict_get contact ''address'' JNull)))
       \<and> (contact = [] \<longrightarrow>
            field \<in> set missing \<and> field @ '' (phone, email, or address)'' \<notin> set missing)"
proof -
  from traverse_truthy[OF res split_str_nonempty] have "truthy data" by simp
  with ret have loop: "check_loop data required_fields [] = Inr missing"
    by (auto simp: check_required_fields_def split: sum.splits)
  let ?ann = "field @ contact_annotation"
  have own: "check_field data field =
      (if contact = [] then Inr [field]
       else if \<not> list_ex truthy
                 [dict_get contact ''phone'' JNull,
                  dict_get contact ''email'' JNull,
                  dict_get contact ''address'' JNull]
            then Inr [?ann] else Inr [])"
    by (simp add: check_field_contact[OF suf] res)
  have neq: "field \<noteq> ?ann" by (simp add: contact_annotation_def)
  have others: "x \<notin> set new"
    if "g \<in> set required_fields" "g \<noteq> field" "check_field data g = Inr new" "x = field \<or> x = ?ann"
    for g new x
  proof
    assume "x \<in> set new"
    with check_field_entries[OF that(3)] have "x = g \<or> x = g @ contact_annotation" by auto
    with that(2,4) annotated_not_required[OF that(1), of field]
      annotated_not_required[OF req, of g]
    show False by auto
  qed
  have mem: "x \<in> set missing \<longleftrightarrow> (\<exists>new. check_field data field = Inr new \<and> x \<in> set new)"
    if "x = field \<or> x = ?ann" for x
  proof
    assume "x \<in> set missing"
    with check_loop_append[OF loop, of x]
    obtain g new where g: "g \<in> set required_fields" "check_field data g = Inr new" "x \<in> set new"
      by auto
    with others[OF g(1) _ g(2) that] have "g = field" by blast
    with g show "\<exists>new. check_field data field = Inr new \<and> x \<in> set new" by blast
  next
    assume "\<exists>new. check_field data field = Inr new \<and> x \<in> set new"
    with check_loop_append[OF loop, of x] req show "x \<in> set missing" by blast
  qed
  from mem[of field] mem[of ?ann] own neq show ?thesis
    by (auto simp: contact_annotation_def)
qed

theorem check_required_fields_contact_record_witness:
  "check_required_fields
      (referral_with_contact
         (JObj [(''phone'', JStr []), (''email'', JStr []), (''address'', JStr [])]))
     = Inr (False, [''referring_provider.contact (phone, email, or address)''])
   \<and> ''referring_provider.contact (phone, email, or address)''
         \<in> set [''referring_provider.contact (phone, email, or address)'']
   \<and> ''referring_provider.contact''
         \<notin> set [''referring_provider.contact (phone, email, or address)'']"
proof -
  let ?blank = "[(''phone'', JStr []), (''email'', JStr []), (''address'', JStr [])]"
  have ret: "check_required_fields (referral_with_contact (JObj ?blank))
      = Inr (False, [''referring_provider.contact (phone, email, or address)''])"
    by code_simp
  have req: "''referring_provider.contact'' \<in> set required_fields"
    by (simp add: required_fields_def)
  have suf: "suffix ''.contact'' ''referring_provider.contact''"
    by (simp add: suffix_def)
  have res: "traverse (split_str CHR ''.'' ''referring_provider.contact'')
      (referral_with_contact (JObj ?blank)) = Some (JObj ?blank)"
    by (simp add: referral_with_contact_def)
  from check_required_fields_contact_record[OF ret req suf res] ret
  show ?thesis by (simp add: dict_get_def)
qed

text \<open>
  The claim as it is written fails on an empty contact record: the record is present
  and has none of the three, and the entry in the list carries no annotation.
\<close>

theorem check_required_fields_empty_contact:
  "traverse (split_str CHR ''.'' ''referring_provider.contact'') (referral_with_contact (JObj []))
     = Some (JObj [])
   \<and> check_required_fields (referral_with_contact (JObj []))
     = Inr (False, [''referring_provider.contact''])
   \<and> ''referring_provider.contact (phone, email, or address)''
         \<notin> set [''referring_provider.contact'']"
  by (simp add: check_required_fields_def required_fields_def check_field_def
      referral_with_contact_def suffix_def dict_get_def)

subsection \<open>When the validation raises\<close>

text \<open>
  Claim C9, as the code has it. On an input that is a record, or is empty,
  \<^verbatim>\<open>check_required_fields\<close> returns a pair if every required \<^verbatim>\<open>.contact\<close> path that ends
  on a non-empty value ends on a record; otherwise the \<^verbatim>\<open>.get\<close> calls on the contact
  value raise \<^verbatim>\<open>AttributeError\<close>. The restriction to records and empty inputs is needed:
  on a non-empty input of another kind the test \<^verbatim>\<open>field not in data\<close> of the top-level
  fields can raise \<^verbatim>\<open>TypeError\<close>.
\<close>

theorem check_required_fields_total_iff:
  assumes shape: "is_dict data \<or> \<not> truthy data"
  shows "(contact_values_are_records data \<longrightarrow> (\<exists>r. check_required_fields data = Inr r))
       \<and> (\<not> contact_values_are_records data \<longrightarrow> check_required_fields data = Inl AttributeError)"
proof (cases "truthy data")
  case False
  have "traverse (split_str CHR ''.'' f) data = None" for f
    using traverse_truthy[of "split_str CHR ''.'' f" data] split_str_nonempty[of "CHR ''.''" f] False
    by (cases "traverse (split_str CHR ''.'' f) data") auto
  then have "contact_values_are_records data"
    by (simp add: contact_values_are_records_def)
  with False show ?thesis by (auto simp: check_required_fields_def)
next
  case True
  with shape obtain kvs where data: "data = JObj kvs" by (cases data) auto
  show ?thesis
  proof (intro conjI impI)
    assume ok: "contact_values_are_records data"
    have "\<exists>new. check_field data f = Inr new" if f: "f \<in> set required_fields" for f
    proof (cases "suffix ''.contact'' f")
      case True
      with ok f show ?thesis
        by (auto simp: check_field_contact contact_values_are_records_def
            split: option.splits json.splits)
    next
      case False
      then show ?thesis
        using check_field_plain[of f data] check_field_top_dict[of f kvs] data
        by (cases "CHR ''.'' \<in> set f") auto
    qed
    from check_loop_total[of required_fields data "[]", OF this] True
    show "\<exists>r. check_required_fields data = Inr r"
      by (auto simp: check_required_fields_def)
  next
    assume "\<not> contact_values_are_records data"
    then obtain f v where f: "f \<in> set required_fields" "suffix ''.contact'' f"
      and v: "traverse (split_str CHR ''.'' f) data = Some v" "truthy v" "\<not> is_dict v"
      by (auto simp: contact_values_are_records_def split: option.splits)
    then have bad: "check_field data f = Inl AttributeError"
      by (cases v) (auto simp: check_field_contact)
    obtain e where e: "check_loop data required_fields [] = Inl e"
      using check_loop_fields_return[of data required_fields "[]" _ f] f(1) bad
      by (cases "check_loop data required_fields []") auto
    from check_loop_raises[OF e] data have "e = AttributeError"
      using check_field_dict_error by blast
    with e True show "check_required_fields data = Inl AttributeError"
      by (simp add: check_required_fields_def)
  qed
qed

theorem check_required_fields_total_iff_witness:
  "(is_dict complete_referral \<or> \<not> truthy complete_referral)
   \<and> contact_values_are_records complete_referral
   \<and> (\<exists>r. check_required_fields complete_referral = Inr r)
   \<and> (is_dict (referral_with_contact (JStr ''555-0100''))
        \<or> \<not> truthy (referral_with_contact (JStr ''555-0100'')))
   \<and> \<not> contact_values_are_records (referral_with_contact (JStr ''555-0100''))
   \<and> check_required_fields (referral_with_contact (JStr ''555-0100'')) = Inl AttributeError"
proof -
  have shape1: "is_dict complete_referral \<or> \<not> truthy complete_referral"
    by (simp add: complete_referral_def complete_fields_def)
  have ok: "contact_values_are_records complete_referral"
    by (simp add: contact_values_are_records_def required_fields_def complete_referral_def
        complete_fields_def
        suffix_def)
  have shape2: "is_dict (referral_with_contact (JStr ''555-0100''))
      \<or> \<not> truthy (referral_with_contact (JStr ''555-0100''))"
    by (simp add: referral_with_contact_def)
  have bad: "\<not> contact_values_are_records (referral_with_contact (JStr ''555-0100''))"
    by (simp add: contact_values_are_records_def required_fields_def referral_with_contact_def
        suffix_def)
  from check_required_fields_total_iff[OF shape1] check_required_fields_total_iff[OF shape2]
    shape1 ok shape2 bad
  show ?thesis by blast
qed

text \<open>
  Without the restriction the claim fails: on the number 42 no contact path ends on a
  value at all, and the call raises \<^verbatim>\<open>TypeError\<close>.
\<close>

theorem check_required_fields_number:
  "traverse (split_str CHR ''.'' ''referring_provider.contact'') (JInt 42) = None
   \<and> traverse (split_str CHR ''.'' ''receiving_provider.contact'') (JInt 42) = None
   \<and> contact_values_are_records (JInt 42)
   \<and> check_required_fields (JInt 42) = Inl TypeError"
  by (simp add: contact_values_are_records_def check_required_fields_def required_fields_def
      check_field_def)

section \<open>Properties of the pipeline\<close>

subsection \<open>What each step does to the store and the log\<close>

lemma log_event_simps [simp]:
  "store (log_event ev w) = store w"
  "clock (log_event ev w) = clock w"
  "queue (log_event ev w) = queue w"
  "trace (log_event ev w) = trace w @ [ev]"
  by (simp_all add: log_event_def)

lemma update_redis_status_simps [simp]:
  "trace (update_redis_status env doc_id status info sd w) = trace w"
  "clock (update_redis_status env doc_id status info sd w) = clock w"
  "queue (update_redis_status env doc_id status info sd w) = queue w"
  "store (update_redis_status env doc_id status info sd w) =
     (store w)(''document:'' @ py_str env doc_id \<mapsto>
        (status_data env w status info sd, clock w + 3600))"
  by (simp_all add: update_redis_status_def redis_setex_def)


lemma draft_request_email_world:
  "draft_request_email env m a b c w = (r, w1) \<Longrightarrow>
     w1 = log_event (Drafting m) w
     \<or> (\<exists>msgs. w1 = log_event (ChatCalled msgs) (log_event (Drafting m) w))"
  by (auto simp: draft_request_email_def chat_with_gpt4_def Let_def
      split: sum.splits option.splits if_splits)





subsection \<open>Contact records\<close>

lemma get_contact_info_record:
  assumes "contact_record provider = Some c"
  shows "get_contact_info provider =
           Inr (case best_channel c of Some v \<Rightarrow> v | None \<Rightarrow> JStr no_contact)"
proof -
  from assms obtain kvs where p: "provider = JObj kvs" "dict_get kvs ''contact'' (JObj []) = JObj c"
    by (auto simp: contact_record_def split: json.splits)
  have idx: "py_index (JObj c) k = Inr (dict_get c k JNull)" if "truthy (dict_get c k JNull)" for k
    using that by (auto simp: dict_get_def split: option.splits)
  show ?thesis
    by (simp add: get_contact_info_def p best_channel_def idx del: py_index.simps)
qed

subsection \<open>Complete referrals\<close>







lemma draft_request_email_clock:
  "draft_request_email env m a b c w = (r, w1) \<Longrightarrow> store w1 = store w \<and> clock w1 = clock w"
  by (auto dest!: draft_request_email_world)

subsection \<open>The sample texts\<close>

lemmas sample_text_defs =
  job_text_def complete_referral_text_def unreachable_referral_text_def
  blank_contact_referral_text_def sample_draft_text_def

section \<open>Claims about the pipeline\<close>

subsection \<open>Extraction\<close>

text \<open>
  Claim C1, as the code has it. When the language model answers the extraction request
  of a job, \<^verbatim>\<open>llm_assistend_extraction\<close> returns \<^verbatim>\<open>None\<close> if there is no reply, if
  \<^verbatim>\<open>json.loads\<close> rejects the reply with \<^verbatim>\<open>JSONDecodeError\<close>, or if the reply is the JSON
  \<^verbatim>\<open>null\<close>. Whenever \<^verbatim>\<open>json.loads\<close> returns a value, that value is returned whole, whether
  or not it has the shape of a referral. Any other exception of \<^verbatim>\<open>json.loads\<close> is not
  caught and is raised by the function. When the result is \<^verbatim>\<open>None\<close>, the job ends normally
  and its only write to the store is the status \<^verbatim>\<open>extraction_failed\<close> for the document,
  with \<^verbatim>\<open>structured_data\<close> null, to expire after 3600 seconds.
\<close>

theorem extraction_result:
  assumes job: "json_loads env document_data = Inr (JObj job)"
    and reply: "llm env (ExtractionMessages (dict_get job ''extracted_text'' (JStr []))) = Inr response"
  shows "llm_assistend_extraction env (dict_get job ''extracted_text'' (JStr [])) w =
           (case response of
              None \<Rightarrow> Inr JNull
            | Some text \<Rightarrow>
                (case json_loads env text of
                   Inl e \<Rightarrow> if e = JSONDecodeError then Inr JNull else Inl e
                 | Inr data \<Rightarrow> Inr data),
            log_event (ChatCalled (ExtractionMessages (dict_get job ''extracted_text'' (JStr [])))) w)
       \<and> (fst (llm_assistend_extraction env (dict_get job ''extracted_text'' (JStr [])) w) = Inr JNull
            \<longrightarrow> fst (process_document env document_data w) = Completed
              \<and> store (snd (process_document env document_data w)) =
                  (store w)
                    (''document:'' @ py_str env (dict_get job ''document_id'' (JStr ''unknown'')) \<mapsto>
                       (JObj [(''status'', JStr ''extraction_failed''),
                              (''timestamp'', JStr (isoformat env (clock w))),
                              (''additional_info'', JStr ''LLM extraction failed''),
                              (''structured_data'', JNull)],
                        clock w + 3600)))"
proof -
  let ?raw = "dict_get job ''extracted_text'' (JStr [])"
  have ext: "llm_assistend_extraction env ?raw w =
           (case response of
              None \<Rightarrow> Inr JNull
            | Some text \<Rightarrow>
                (case json_loads env text of
                   Inl e \<Rightarrow> if e = JSONDecodeError then Inr JNull else Inl e
                 | Inr data \<Rightarrow> Inr data),
            log_event (ChatCalled (ExtractionMessages ?raw)) w)"
    using reply
    by (simp add: llm_assistend_extraction_def chat_with_gpt4_def
        split: option.splits sum.splits)
  have "fst (process_document env document_data w) = Completed
      \<and> store (snd (process_document env document_data w)) =
          (store w)
            (''document:'' @ py_str env (dict_get job ''document_id'' (JStr ''unknown'')) \<mapsto>
               (JObj [(''status'', JStr ''extraction_failed''),
                      (''timestamp'', JStr (isoformat env (clock w))),
                      (''additional_info'', JStr ''LLM extraction failed''),
                      (''structured_data'', JNull)],
                clock w + 3600))"
    if "fst (llm_assistend_extraction env ?raw w) = Inr JNull"
  proof -
    from that ext have "llm_assistend_extraction env ?raw w
        = (Inr JNull, log_event (ChatCalled (ExtractionMessages ?raw)) w)"
      by simp
    with job show ?thesis
      by (simp add: process_document_def try_body_def status_data_def)
  qed
  with ext show ?thesis by blast
qed

theorem extraction_result_witness:
  "fst (llm_assistend_extraction sample_env (JStr ''scan 3'') idle_world) = Inr JNull
   \<and> fst (process_document sample_env (job_text ''d3'' ''scan 3'') idle_world) = Completed
   \<and> store (snd (process_document sample_env (job_text ''d3'' ''scan 3'') idle_world)) =
       (store idle_world)
         (''document:d3'' \<mapsto>
            (JObj [(''status'', JStr ''extraction_failed''),
                   (''timestamp'', JStr ''2025-01-01T00:00:00''),
                   (''additional_info'', JStr ''LLM extraction failed''),
                   (''structured_data'', JNull)],
             3600))
   \<and> fst (llm_assistend_extraction sample_env (JStr ''scan 4'') idle_world)
       = Inr (JObj [(''answer'', JStr ''no referral found'')])
   \<and> fst (llm_assistend_extraction sample_env (JStr ''scan 7'') idle_world) = Inl RecursionError"
proof -
  have raw: "dict_get (job_fields d r) ''extracted_text'' (JStr []) = JStr r"
    and doc: "dict_get (job_fields d r) ''document_id'' (JStr ''unknown'') = JStr d" for d r
    by (simp_all add: dict_get_def job_fields_def)
  have job3: "json_loads sample_env (job_text ''d3'' ''scan 3'')
      = Inr (JObj (job_fields ''d3'' ''scan 3''))"
    and job4: "json_loads sample_env (job_text ''d4'' ''scan 4'')
      = Inr (JObj (job_fields ''d4'' ''scan 4''))"
    and job7: "json_loads sample_env (job_text ''d7'' ''scan 7'')
      = Inr (JObj (job_fields ''d7'' ''scan 7''))"
    by (simp_all add: sample_env_def sample_loads_def job_text_def)
  have reply3: "llm sample_env
        (ExtractionMessages (dict_get (job_fields ''d3'' ''scan 3'') ''extracted_text'' (JStr [])))
      = Inr (Some ''Sorry, I cannot read this document.'')"
    and reply4: \<open>llm sample_env
        (ExtractionMessages (dict_get (job_fields ''d4'' ''scan 4'') ''extracted_text'' (JStr [])))
      = Inr (Some ''{"answer": "no referral found"}'')\<close>
    and reply7: "llm sample_env
        (ExtractionMessages (dict_get (job_fields ''d7'' ''scan 7'') ''extracted_text'' (JStr [])))
      = Inr (Some deep_array_text)"
    by (simp_all add: raw sample_env_def sample_llm_def)
  have nojson: "json_loads sample_env ''Sorry, I cannot read this document.'' = Inl JSONDecodeError"
    by (simp add: sample_env_def sample_loads_def sample_text_defs)
  have foreign: \<open>json_loads sample_env ''{"answer": "no referral found"}''
      = Inr (JObj [(''answer'', JStr ''no referral found'')])\<close>
    by (simp add: sample_env_def sample_loads_def sample_text_defs)
  have "(100000::nat) = Suc (Suc 99998)" by simp
  then have deep_head: "deep_array_text
      = CHR ''['' # CHR ''['' # (replicate 99998 (CHR ''['') @ replicate 100000 (CHR '']''))"
    unfolding deep_array_text_def by (simp only: replicate.simps append_Cons)
  have "sample_loads deep_array_text = Inl RecursionError"
    unfolding sample_loads_def by (simp add: deep_head sample_text_defs)
  then have deep: "json_loads sample_env deep_array_text = Inl RecursionError"
    by (simp add: sample_env_def)
  have iso: "isoformat sample_env t = ''2025-01-01T00:00:00''" for t
    by (simp add: sample_env_def)
  have now: "clock idle_world = 0"
    by (simp add: idle_world_def)
  from extraction_result[OF job3 reply3, of idle_world]
  have null: "fst (llm_assistend_extraction sample_env (JStr ''scan 3'') idle_world) = Inr JNull
     \<and> fst (process_document sample_env (job_text ''d3'' ''scan 3'') idle_world) = Completed
     \<and> store (snd (process_document sample_env (job_text ''d3'' ''scan 3'') idle_world)) =
       (store idle_world)
         (''document:d3'' \<mapsto>
            (JObj [(''status'', JStr ''extraction_failed''),
                   (''timestamp'', JStr ''2025-01-01T00:00:00''),
                   (''additional_info'', JStr ''LLM extraction failed''),
                   (''structured_data'', JNull)],
             3600))"
    by (simp add: raw doc nojson iso now py_str_def)
  from extraction_result[OF job4 reply4, of idle_world]
  have whole: "fst (llm_assistend_extraction sample_env (JStr ''scan 4'') idle_world)
       = Inr (JObj [(''answer'', JStr ''no referral found'')])"
    by (simp add: raw foreign)
  from extraction_result[OF job7 reply7, of idle_world]
  have raised: "fst (llm_assistend_extraction sample_env (JStr ''scan 7'') idle_world)
       = Inl RecursionError"
    by (simp add: raw deep)
  from null whole raised show ?thesis by blast
qed

text \<open>
  The claim as it is written fails on a reply that is valid JSON without any field of
  the schema: it is returned as the structured data.
\<close>

theorem extraction_keeps_foreign_json:
  \<open>sample_loads ''{"answer": "no referral found"}''
     = Inr (JObj [(''answer'', JStr ''no referral found'')])
   \<and> fst (llm_assistend_extraction sample_env (JStr ''scan 4'') idle_world)
     = Inr (JObj [(''answer'', JStr ''no referral found'')])\<close>
  by (simp add: llm_assistend_extraction_def chat_with_gpt4_def sample_env_def sample_llm_def
      sample_loads_def sample_text_defs)

subsection \<open>Routing\<close>




subsection \<open>Whom to contact\<close>

text \<open>
  Claim C5, as the code has it. For a referring provider whose contact is a record (or
  absent): if its best channel under the priority email, phone, address exists and is
  not the literal \<^verbatim>\<open>"No contact information available"\<close>, that channel is the result,
  and the receiving provider is not looked at; if it has no channel, or its best channel
  is that literal, the result is what \<^verbatim>\<open>get_contact_info\<close> gives for the receiving
  provider, which for a contact record is its best channel under the same priority and
  the literal when it has none.
\<close>

theorem contact_resolution:
  assumes "contact_record referring = Some rc"
  shows "(\<forall>v. best_channel rc = Some v \<and> v \<noteq> JStr no_contact
              \<longrightarrow> resolve_contact_info referring receiving = Inr v)
       \<and> (best_channel rc = None \<or> best_channel rc = Some (JStr no_contact)
              \<longrightarrow> resolve_contact_info referring receiving = get_contact_info receiving)
       \<and> (\<forall>cc. contact_record receiving = Some cc
              \<longrightarrow> get_contact_info receiving =
                    Inr (case best_channel cc of Some v \<Rightarrow> v | None \<Rightarrow> JStr no_contact))"
  using get_contact_info_record[OF assms] get_contact_info_record[of receiving]
  by (auto simp: resolve_contact_info_def)

theorem contact_resolution_witness:
  "contact_record
      (JObj [(''name'', JStr ''Dr. Adams''),
             (''contact'', JObj [(''phone'', JStr ''555-0101''),
                                (''email'', JStr ''adams@clinic.example'')])])
     = Some [(''phone'', JStr ''555-0101''), (''email'', JStr ''adams@clinic.example'')]
   \<and> resolve_contact_info
        (JObj [(''name'', JStr ''Dr. Adams''),
               (''contact'', JObj [(''phone'', JStr ''555-0101''),
                                  (''email'', JStr ''adams@clinic.example'')])])
        (JObj [(''contact'', JObj [(''email'', JStr ''brown@clinic.example'')])])
     = Inr (JStr ''adams@clinic.example'')
   \<and> contact_record (JObj [(''name'', JStr ''Dr. Adams'')]) = Some []
   \<and> resolve_contact_info (JObj [(''name'', JStr ''Dr. Adams'')])
        (JObj [(''contact'', JObj [(''phone'', JStr ''555-0100''), (''address'', JStr ''1 Main St'')])])
     = Inr (JStr ''555-0100'')"
proof -
  let ?rc = "[(''phone'', JStr ''555-0101''), (''email'', JStr ''adams@clinic.example'')]"
  let ?referring = "JObj [(''name'', JStr ''Dr. Adams''), (''contact'', JObj ?rc)]"
  let ?cc = "[(''phone'', JStr ''555-0100''), (''address'', JStr ''1 Main St'')]"
  let ?receiving = "JObj [(''contact'', JObj ?cc)]"
  have r1: "contact_record ?referring = Some ?rc"
    by (simp add: contact_record_def dict_get_def)
  have b1: "best_channel ?rc = Some (JStr ''adams@clinic.example'')"
    by (simp add: best_channel_def dict_get_def)
  have r2: "contact_record (JObj [(''name'', JStr ''Dr. Adams'')]) = Some []"
    by (simp add: contact_record_def dict_get_def)
  have b2: "best_channel [] = None"
    by (simp add: best_channel_def dict_get_def)
  have r3: "contact_record ?receiving = Some ?cc"
    by (simp add: contact_record_def dict_get_def)
  have b3: "best_channel ?cc = Some (JStr ''555-0100'')"
    by (simp add: best_channel_def dict_get_def)
  from contact_resolution[OF r1,
      of "JObj [(''contact'', JObj [(''email'', JStr ''brown@clinic.example'')])]"] b1
  have first: "resolve_contact_info ?referring
      (JObj [(''contact'', JObj [(''email'', JStr ''brown@clinic.example'')])])
     = Inr (JStr ''adams@clinic.example'')"
    by (simp add: no_contact_def)
  from contact_resolution[OF r2, of ?receiving] b2 r3 b3
  have second: "resolve_contact_info (JObj [(''name'', JStr ''Dr. Adams'')]) ?receiving
     = Inr (JStr ''555-0100'')"
    by simp
  from r1 first r2 second show ?thesis by blast
qed

text \<open>
  The claim as it is written fails when the referring provider's email is the literal
  itself: the email is not empty, and the receiving provider's channel is returned.
\<close>

theorem contact_resolution_literal_email:
  "best_channel [(''email'', JStr ''No contact information available'')]
     = Some (JStr ''No contact information available'')
   \<and> resolve_contact_info
        (JObj [(''contact'', JObj [(''email'', JStr ''No contact information available'')])])
        (JObj [(''contact'', JObj [(''email'', JStr ''brown@clinic.example'')])])
     = Inr (JStr ''brown@clinic.example'')"
  by (simp add: resolve_contact_info_def get_contact_info_def best_channel_def dict_get_def
      no_contact_def)

subsection \<open>Errors inside a job\<close>




subsection \<open>Status of an expired document\<close>

text \<open>
  Claim C7, as the code has it. For a document whose status entry does not exist or
  has expired, \<^verbatim>\<open>get_document_status\<close> raises the HTTP error 500 with the detail
  \<^verbatim>\<open>"Corrupt document data in Redis"\<close>; it neither returns the stale record nor a
  not-found result. An entry written by \<^verbatim>\<open>update_redis_status\<close> is still returned up to
  3600 seconds after the write and has expired once more than 3600 seconds have passed.
  Every exception that \<^verbatim>\<open>get_document_status\<close> itself raises is an HTTP error 500 with one
  of two fixed details, never the text of an internal exception.
\<close>

theorem status_of_expired_document:
  "((store w (''document:'' @ document_id) = None
      \<or> (\<exists>v expires. store w (''document:'' @ document_id) = Some (v, expires)
                      \<and> expires < clock w))
     \<longrightarrow> get_document_status w document_id
           = Inl (HTTPException 500 ''Corrupt document data in Redis''))
   \<and> get_document_status
         ((update_redis_status env (JStr document_id) status info sd w)
            \<lparr>clock := clock w + 3600 + Suc n\<rparr>) document_id
       = Inl (HTTPException 500 ''Corrupt document data in Redis'')
   \<and> (n \<le> 3600 \<longrightarrow>
        get_document_status
          ((update_redis_status env (JStr document_id) status info sd w)
             \<lparr>clock := clock w + n\<rparr>) document_id
        = Inr (JObj [(''status'', JStr status),
                     (''timestamp'', JStr (isoformat env (clock w))),
                     (''additional_info'', info),
                     (''structured_data'', sd)]))
   \<and> (\<forall>h. get_document_status w document_id = Inl h
          \<longrightarrow> h = HTTPException 500 ''Corrupt document data in Redis''
            \<or> h = HTTPException 500 ''Failed to retrieve document status'')"
proof (intro conjI impI allI)
  assume "store w (''document:'' @ document_id) = None
      \<or> (\<exists>v expires. store w (''document:'' @ document_id) = Some (v, expires)
                      \<and> expires < clock w)"
  then have "redis_get w (''document:'' @ document_id) = None"
    by (auto simp: redis_get_def)
  then show "get_document_status w document_id
           = Inl (HTTPException 500 ''Corrupt document data in Redis'')"
    by (simp add: get_document_status_def)
next
  have "redis_get ((update_redis_status env (JStr document_id) status info sd w)
            \<lparr>clock := clock w + 3600 + Suc n\<rparr>) (''document:'' @ document_id) = None"
    by (simp add: redis_get_def py_str_def)
  then show "get_document_status
         ((update_redis_status env (JStr document_id) status info sd w)
            \<lparr>clock := clock w + 3600 + Suc n\<rparr>) document_id
       = Inl (HTTPException 500 ''Corrupt document data in Redis'')"
    by (simp add: get_document_status_def)
next
  assume "n \<le> 3600"
  then have "redis_get ((update_redis_status env (JStr document_id) status info sd w)
            \<lparr>clock := clock w + n\<rparr>) (''document:'' @ document_id)
      = Some (status_data env w status info sd)"
    by (simp add: redis_get_def py_str_def)
  then show "get_document_status
          ((update_redis_status env (JStr document_id) status info sd w)
             \<lparr>clock := clock w + n\<rparr>) document_id
        = Inr (JObj [(''status'', JStr status),
                     (''timestamp'', JStr (isoformat env (clock w))),
                     (''additional_info'', info),
                     (''structured_data'', sd)])"
    by (simp add: get_document_status_def status_data_def dict_get_def)
next
  fix h
  assume "get_document_status w document_id = Inl h"
  then show "h = HTTPException 500 ''Corrupt document data in Redis''
            \<or> h = HTTPException 500 ''Failed to retrieve document status''"
    by (auto simp: get_document_status_def split: option.splits sum.splits)
qed

theorem status_of_expired_document_witness:
  "store ((update_redis_status sample_env (JStr ''d1'') ''emr_synced'' JNull JNull idle_world)
            \<lparr>clock := 3601\<rparr>) ''document:d1''
     = Some (status_data sample_env idle_world ''emr_synced'' JNull JNull, 3600)
   \<and> get_document_status
        ((update_redis_status sample_env (JStr ''d1'') ''emr_synced'' JNull JNull idle_world)
            \<lparr>clock := 3601\<rparr>) ''d1''
     = Inl (HTTPException 500 ''Corrupt document data in Redis'')
   \<and> get_document_status
        ((update_redis_status sample_env (JStr ''d1'') ''emr_synced'' JNull JNull idle_world)
            \<lparr>clock := 3600\<rparr>) ''d1''
     = Inr (JObj [(''status'', JStr ''emr_synced''),
                  (''timestamp'', JStr ''2025-01-01T00:00:00''),
                  (''additional_info'', JNull),
                  (''structured_data'', JNull)])"
proof -
  let ?written = "update_redis_status sample_env (JStr ''d1'') ''emr_synced'' JNull JNull idle_world"
  let ?w = "?written\<lparr>clock := 3601\<rparr>"
  have entry: "store ?w (''document:'' @ ''d1'')
     = Some (status_data sample_env idle_world ''emr_synced'' JNull JNull, 3600)"
    by (simp add: py_str_def idle_world_def)
  have late: "(3600::nat) < clock ?w" by simp
  from entry late
  have expired: "store ?w (''document:'' @ ''d1'') = None
      \<or> (\<exists>v expires. store ?w (''document:'' @ ''d1'') = Some (v, expires)
                      \<and> expires < clock ?w)"
    by (intro disjI2 exI conjI)
  from status_of_expired_document[of ?w "''d1''", THEN conjunct1, rule_format, OF expired]
  have gone: "get_document_status ?w ''d1''
      = Inl (HTTPException 500 ''Corrupt document data in Redis'')" .
  have now: "clock idle_world = 0"
    by (simp add: idle_world_def)
  have iso: "isoformat sample_env t = ''2025-01-01T00:00:00''" for t
    by (simp add: sample_env_def)
  from status_of_expired_document[where w = idle_world and document_id = "''d1''"
      and env = sample_env and status = "''emr_synced''" and info = JNull and sd = JNull
      and n = 3600, THEN conjunct2, THEN conjunct2, THEN conjunct1]
  have kept: "get_document_status (?written\<lparr>clock := 3600\<rparr>) ''d1''
     = Inr (JObj [(''status'', JStr ''emr_synced''),
                  (''timestamp'', JStr ''2025-01-01T00:00:00''),
                  (''additional_info'', JNull),
                  (''structured_data'', JNull)])"
    by (simp add: now iso)
  from entry gone kept show ?thesis by simp
qed

text \<open>
  The claim as it is written fails on a document that never had a status: the answer
  is the error 500, not a result that says the document is unknown.
\<close>

theorem status_of_unknown_document:
  "store idle_world ''document:d9'' = None
   \<and> get_document_status idle_world ''d9''
     = Inl (HTTPException 500 ''Corrupt document data in Redis'')"
  by (simp add: get_document_status_def redis_get_def idle_world_def)

subsection \<open>No contact channel\<close>

text \<open>
  When the contact of each provider is a record, or is absent, and has no phone, email
  or address, and the draft of the email is a non-empty record, the routing of an
  incomplete referral sends the email to the literal
  \<^verbatim>\<open>"No contact information available"\<close> and stores the status
  \<^verbatim>\<open>missing_fields_email_sent\<close> with that literal as \<^verbatim>\<open>contact_info\<close>.
\<close>

lemma no_contact_email_still_sent:
  assumes referring: "contact_record (dict_get kvs ''referring_provider'' (JObj [])) = Some rc"
      "best_channel rc = None"
    and receiving: "contact_record (dict_get kvs ''receiving_provider'' (JObj [])) = Some cc"
      "best_channel cc = None"
    and draft: "draft_request_email env missing
                  (dict_get kvs ''referring_provider'' (JObj []))
                  (dict_get kvs ''receiving_provider'' (JObj []))
                  (dict_get kvs ''referral_id'' doc_id) w = (Inr (JObj draft), w1)"
      "draft \<noteq> []"
  shows "fst (route_document env doc_id (JObj kvs) False missing w) = Inr ()
       \<and> trace (snd (route_document env doc_id (JObj kvs) False missing w))
           = trace w1 @ [EmailSent (JObj draft) (JStr ''No contact information available'')]
       \<and> store (snd (route_document env doc_id (JObj kvs) False missing w)) =
           (store w)(''document:'' @ py_str env doc_id \<mapsto>
              (JObj [(''status'', JStr ''missing_fields_email_sent''),
                     (''timestamp'', JStr (isoformat env (clock w))),
                     (''additional_info'',
                        JObj [(''missing_fields'', JArr (map JStr missing)),
                              (''email_result'',
                                 JObj [(''status'', JStr ''sent''),
                                       (''timestamp'', JStr (isoformat env (clock w))),
                                       (''recipient'',
                                          JStr ''No contact information available'')]),
                              (''contact_info'', JStr ''No contact information available'')]),
                     (''structured_data'', JObj kvs)],
               clock w + 3600))"
proof -
  have "resolve_contact_info (dict_get kvs ''referring_provider'' (JObj []))
          (dict_get kvs ''receiving_provider'' (JObj [])) = Inr (JStr no_contact)"
    using get_contact_info_record[OF referring(1)] get_contact_info_record[OF receiving(1)]
      referring(2) receiving(2)
    by (simp add: resolve_contact_info_def)
  with draft
  have routed: "route_document env doc_id (JObj kvs) False missing w =
           (Inr (),
            update_redis_status env doc_id ''missing_fields_email_sent''
              (JObj [(''missing_fields'', JArr (map JStr missing)),
                     (''email_result'',
                        JObj [(''status'', JStr ''sent''),
                              (''timestamp'', JStr (isoformat env (clock w1))),
                              (''recipient'', JStr ''No contact information available'')]),
                     (''contact_info'', JStr ''No contact information available'')])
              (JObj kvs)
              (log_event (EmailSent (JObj draft) (JStr ''No contact information available'')) w1))"
    by (simp add: route_document_def mock_send_email_def no_contact_def)
  from draft(1) draft_request_email_clock have same: "store w1 = store w" "clock w1 = clock w"
    by blast+
  show ?thesis
    unfolding routed by (simp add: same status_data_def)
qed

text \<open>
  Claim C10 says the same of every incomplete referral in which neither provider has a
  phone, an email or an address. The code does not do it when a provider's contact is
  not a record. In the referral below the contact of both providers is the empty string:
  the validation reports both contact paths and the draft comes back, but
  \<^verbatim>\<open>get_contact_info\<close> calls \<^verbatim>\<open>.get\<close> on the string and raises \<^verbatim>\<open>AttributeError\<close>. The job
  ends with that exception leaving \<^verbatim>\<open>main\<close>; no email is sent and no status is stored.
\<close>

theorem blank_contact_raises:
  "check_required_fields (JObj blank_contact_fields)
     = Inr (False, [''referring_provider.contact'', ''receiving_provider.contact''])
   \<and> fst (draft_request_email sample_env
          [''referring_provider.contact'', ''receiving_provider.contact'']
          (dict_get blank_contact_fields ''referring_provider'' (JObj []))
          (dict_get blank_contact_fields ''receiving_provider'' (JObj []))
          (dict_get blank_contact_fields ''referral_id'' (JStr ''d8''))
          (log_event (ChatCalled (ExtractionMessages (JStr ''scan 8''))) idle_world))
     = Inr sample_draft
   \<and> get_contact_info (dict_get blank_contact_fields ''referring_provider'' (JObj []))
     = Inl AttributeError
   \<and> fst (process_document sample_env (job_text ''d8'' ''scan 8'') idle_world)
     = Propagated AttributeError
   \<and> trace (snd (process_document sample_env (job_text ''d8'' ''scan 8'') idle_world))
     = [ChatCalled (ExtractionMessages (JStr ''scan 8'')),
        Drafting [''referring_provider.contact'', ''receiving_provider.contact''],
        ChatCalled
          (EmailDraftMessages (JStr ''Dr. Adams'') (JStr ''Dr. Brown'')
             [''referring_provider.contact'', ''receiving_provider.contact'']),
        ErrorLogged AttributeError]
   \<and> redis_get (snd (process_document sample_env (job_text ''d8'' ''scan 8'') idle_world))
        ''document:d8''
     = None"
proof -
  let ?m = "[''referring_provider.contact'', ''receiving_provider.contact'']"
  have ret: "check_required_fields (JObj blank_contact_fields) = Inr (False, ?m)"
    by code_simp
  have referring: "dict_get blank_contact_fields ''referring_provider'' (JObj [])
      = JObj [(''name'', JStr ''Dr. Adams''), (''contact'', JStr [])]"
    and receiving: "dict_get blank_contact_fields ''receiving_provider'' (JObj [])
      = JObj [(''name'', JStr ''Dr. Brown''), (''contact'', JStr [])]"
    by (simp_all add: dict_get_def blank_contact_fields_def)
  have parsed: "sample_loads sample_draft_text = Inr sample_draft"
    by (simp add: sample_loads_def sample_text_defs)
  have draft: "draft_request_email sample_env ?m
      (dict_get blank_contact_fields ''referring_provider'' (JObj []))
      (dict_get blank_contact_fields ''receiving_provider'' (JObj []))
      (dict_get blank_contact_fields ''referral_id'' (JStr ''d8'')) w
     = (Inr sample_draft,
        log_event
          (ChatCalled (EmailDraftMessages (JStr ''Dr. Adams'') (JStr ''Dr. Brown'') ?m))
          (log_event (Drafting ?m) w))" for w
    unfolding referring receiving
    by (simp add: draft_request_email_def chat_with_gpt4_def sample_env_def sample_llm_def
        parsed dict_get_def)
  have contact: "get_contact_info (dict_get blank_contact_fields ''referring_provider'' (JObj []))
      = Inl AttributeError"
    unfolding referring by (simp add: get_contact_info_def dict_get_def)
  have full: "truthy sample_draft"
    by (simp add: sample_draft_def sample_draft_fields_def)
  have routed: "route_document sample_env (JStr ''d8'') (JObj blank_contact_fields) False ?m w
     = (Inl AttributeError,
        log_event
          (ChatCalled (EmailDraftMessages (JStr ''Dr. Adams'') (JStr ''Dr. Brown'') ?m))
          (log_event (Drafting ?m) w))" for w
    by (simp add: route_document_def draft full resolve_contact_info_def contact)
  have job: "json_loads sample_env (job_text ''d8'' ''scan 8'')
      = Inr (JObj (job_fields ''d8'' ''scan 8''))"
    by (simp add: sample_env_def sample_loads_def job_text_def)
  have reply: "llm sample_env (ExtractionMessages (JStr ''scan 8''))
      = Inr (Some blank_contact_referral_text)"
    by (simp add: sample_env_def sample_llm_def)
  have loaded: "json_loads sample_env blank_contact_referral_text = Inr (JObj blank_contact_fields)"
    by (simp add: sample_env_def sample_loads_def sample_text_defs)
  have body: "try_body sample_env (job_text ''d8'' ''scan 8'') idle_world
     = (Inl AttributeError,
        log_event
          (ChatCalled (EmailDraftMessages (JStr ''Dr. Adams'') (JStr ''Dr. Brown'') ?m))
          (log_event (Drafting ?m)
             (log_event (ChatCalled (ExtractionMessages (JStr ''scan 8''))) idle_world)))"
    by (simp add: try_body_def job job_fields_def dict_get_def llm_assistend_extraction_def
        chat_with_gpt4_def reply loaded ret routed)
  have empty: "store idle_world = (\<lambda>key. None)" "trace idle_world = []"
    by (simp_all add: idle_world_def)
  show ?thesis
    by (simp add: ret draft contact process_document_def body redis_get_def empty)
qed

end
